theory Spec2Isabelle
  imports Complex_Main
begin

section \<open>Beam and half-cylinder concrete visualizer: the geometry of beam_concrete_app.py\<close>

text \<open>
  The script computes with numpy double-precision numbers. They are modelled here as
  the real numbers they approximate: \<open>np.sqrt\<close>, \<open>np.cos\<close>, \<open>np.sin\<close> and \<open>np.pi\<close>
  are \<^const>\<open>sqrt\<close>, \<^const>\<open>cos\<close>, \<^const>\<open>sin\<close> and \<^const>\<open>pi\<close>, and no rounding,
  overflow or NaN is modelled. Arrays are lists, two-dimensional arrays are lists of rows.
\<close>

subsection \<open>Unit conversion (lines 10-22)\<close>

definition INCH_TO_M :: real where
  "INCH_TO_M = 254 / 10000"

definition to_si :: "real \<Rightarrow> string \<Rightarrow> real" where
  "to_si val from_unit = (if from_unit = ''in'' then val * INCH_TO_M else val)"

definition from_si :: "real \<Rightarrow> string \<Rightarrow> real" where
  "from_si val to_unit = (if to_unit = ''in'' then val / INCH_TO_M else val)"

subsection \<open>Required radius (lines 39-41)\<close>

text \<open>
  The beam dimensions \<open>x\<close> (width), \<open>y\<close> (length), \<open>z\<close> (height), the clearance, the
  shell height and the shell thickness reach this point in metres. The script's variable
  \<open>a\<close> is \<open>a_inner\<close> here.
\<close>

definition diag :: "real \<Rightarrow> real \<Rightarrow> real" where
  "diag x z = sqrt (x\<^sup>2 + (z / 2)\<^sup>2)"

definition a_inner :: "real \<Rightarrow> real \<Rightarrow> real \<Rightarrow> real" where
  "a_inner x z clearance = diag x z + clearance"

subsection \<open>The numpy functions the script calls\<close>

text \<open>
  \<open>np.linspace(start, stop, num)\<close> with its default \<open>endpoint=True\<close>, after numpy's
  implementation: the samples are \<open>i * step + start\<close> for \<open>i = 0, ..., num - 1\<close> with
  \<open>step = (stop - start) / (num - 1)\<close>, and the last sample is then overwritten with
  \<open>stop\<close> when \<open>num > 1\<close>. numpy takes \<open>(i / div) * delta\<close> instead of \<open>i * step\<close> when
  the step is zero, which is the same real number; with \<open>num = 1\<close> the only sample is
  \<open>start\<close>. The local \<open>div\<close> of numpy is \<open>dv\<close> here.
\<close>

definition linspace :: "real \<Rightarrow> real \<Rightarrow> nat \<Rightarrow> real list" where
  "linspace start stop num =
     (let dv = num - 1;
          delta = stop - start;
          y = (if 0 < dv then map (\<lambda>i. real i * (delta / real dv) + start) [0..<num]
               else map (\<lambda>i. real i * delta + start) [0..<num])
      in if 1 < num then y[num - 1 := stop] else y)"

text \<open>
  \<open>np.meshgrid(xs, ys)\<close> with its default \<open>indexing='xy'\<close>: two arrays of
  \<open>len(ys)\<close> rows and \<open>len(xs)\<close> columns; the first repeats \<open>xs\<close> in every row, the
  second holds \<open>ys[r]\<close> throughout row \<open>r\<close>.
\<close>

definition meshgrid :: "real list \<Rightarrow> real list \<Rightarrow> real list list \<times> real list list" where
  "meshgrid xs ys = (map (\<lambda>_. xs) ys, map (\<lambda>v. map (\<lambda>_. v) xs) ys)"

text \<open>\<open>np.zeros_like\<close> of a two-dimensional array.\<close>

definition zeros_like :: "real list list \<Rightarrow> real list list" where
  "zeros_like g = map (map (\<lambda>_. 0)) g"

subsection \<open>Shell surfaces (lines 58-63, 77-79, 91-95)\<close>

definition theta :: "real list" where
  "theta = linspace (- pi / 2) (pi / 2) 100"

definition Z_shell :: "real \<Rightarrow> real list" where
  "Z_shell shell_height = linspace 0 shell_height 30"

definition Theta :: "real \<Rightarrow> real list list" where
  "Theta shell_height = fst (meshgrid theta (Z_shell shell_height))"

definition Zgrid_shell :: "real \<Rightarrow> real list list" where
  "Zgrid_shell shell_height = snd (meshgrid theta (Z_shell shell_height))"

text \<open>
  In the next definitions \<open>r\<close> is the value of the script's \<open>a\<close>, and the script's
  \<open>b\<close> is \<open>b_outer\<close>.
\<close>

definition X_inner :: "real \<Rightarrow> real \<Rightarrow> real list list" where
  "X_inner r shell_height = map (map (\<lambda>t. r * cos t)) (Theta shell_height)"

definition Y_inner :: "real \<Rightarrow> real \<Rightarrow> real list list" where
  "Y_inner r shell_height = map (map (\<lambda>t. r * sin t)) (Theta shell_height)"

definition Z_inner :: "real \<Rightarrow> real list list" where
  "Z_inner shell_height = Zgrid_shell shell_height"

definition X_outer :: "real \<Rightarrow> real \<Rightarrow> real \<Rightarrow> real list list" where
  "X_outer r shell_thickness shell_height =
     map (map (\<lambda>t. (r + shell_thickness) * cos t)) (Theta shell_height)"

definition Y_outer :: "real \<Rightarrow> real \<Rightarrow> real \<Rightarrow> real list list" where
  "Y_outer r shell_thickness shell_height =
     map (map (\<lambda>t. (r + shell_thickness) * sin t)) (Theta shell_height)"

definition Z_outer :: "real \<Rightarrow> real list list" where
  "Z_outer shell_height = Zgrid_shell shell_height"

definition b_outer :: "real \<Rightarrow> real \<Rightarrow> real" where
  "b_outer r shell_thickness = r + shell_thickness"

definition Y_flat :: "real \<Rightarrow> real \<Rightarrow> real list" where
  "Y_flat r shell_thickness =
     linspace (- b_outer r shell_thickness) (b_outer r shell_thickness) 30"

definition Z_flat :: "real \<Rightarrow> real list" where
  "Z_flat shell_height = linspace 0 shell_height 30"

definition Y_flat_grid :: "real \<Rightarrow> real \<Rightarrow> real \<Rightarrow> real list list" where
  "Y_flat_grid r shell_thickness shell_height =
     fst (meshgrid (Y_flat r shell_thickness) (Z_flat shell_height))"

definition Z_flat_grid :: "real \<Rightarrow> real \<Rightarrow> real \<Rightarrow> real list list" where
  "Z_flat_grid r shell_thickness shell_height =
     snd (meshgrid (Y_flat r shell_thickness) (Z_flat shell_height))"

definition X_flat :: "real \<Rightarrow> real \<Rightarrow> real \<Rightarrow> real list list" where
  "X_flat r shell_thickness shell_height =
     zeros_like (Y_flat_grid r shell_thickness shell_height)"

subsection \<open>Beam box (lines 107-114)\<close>

definition beam_vertices :: "real \<Rightarrow> real \<Rightarrow> real \<Rightarrow> real list list" where
  "beam_vertices x y z =
     [[0, - y / 2, 0], [x, - y / 2, 0], [x, y / 2, 0], [0, y / 2, 0],
      [0, - y / 2, z], [x, - y / 2, z], [x, y / 2, z], [0, y / 2, z]]"

definition beam_i :: "nat list" where
  "beam_i = [0, 0, 1, 1, 2, 2, 3, 3, 4, 4, 5, 5]"

definition beam_j :: "nat list" where
  "beam_j = [1, 3, 2, 0, 3, 1, 0, 2, 5, 7, 6, 4]"

definition beam_k :: "nat list" where
  "beam_k = [3, 2, 3, 1, 1, 0, 2, 0, 7, 6, 7, 5]"

text \<open>
  \<open>go.Mesh3d(x, y, z, i, j, k)\<close> draws, for every position \<open>n\<close>, the triangle whose
  corners are the vertices numbered \<open>i[n]\<close>, \<open>j[n]\<close>, \<open>k[n]\<close>.
\<close>

definition beam_triangles :: "(nat \<times> nat \<times> nat) list" where
  "beam_triangles = zip beam_i (zip beam_j beam_k)"

subsection \<open>Radius against beam width (lines 143-144)\<close>



subsection \<open>Geometric notions used to state the properties\<close>

text \<open>
  The distance of a vertex \<open>[px, py, pz]\<close> from the vertical line \<open>x = 0, y = 0\<close>, the
  axis around which the shell surfaces are drawn.
\<close>

definition radial_distance :: "real list \<Rightarrow> real" where
  "radial_distance p = sqrt ((p ! 0)\<^sup>2 + (p ! 1)\<^sup>2)"

text \<open>
  The six faces of the beam box, each as a coordinate axis (0, 1, 2 for x, y, z) and the
  value that coordinate has on the face.
\<close>

definition box_faces :: "real \<Rightarrow> real \<Rightarrow> real \<Rightarrow> (nat \<times> real) list" where
  "box_faces x y z = [(0, 0), (0, x), (1, - y / 2), (1, y / 2), (2, 0), (2, z)]"

text \<open>A triangle is degenerate when two of its corners are the same vertex.\<close>

definition degenerate :: "nat \<times> nat \<times> nat \<Rightarrow> bool" where
  "degenerate t = (case t of (i, j, k) \<Rightarrow> i = j \<or> j = k \<or> i = k)"

text \<open>A triangle lies on a face when its three corners do.\<close>

definition on_face :: "real list list \<Rightarrow> nat \<times> real \<Rightarrow> nat \<times> nat \<times> nat \<Rightarrow> bool" where
  "on_face vs f t =
     (case f of (axis, c) \<Rightarrow> case t of (i, j, k) \<Rightarrow>
        vs ! i ! axis = c \<and> vs ! j ! axis = c \<and> vs ! k ! axis = c)"

definition face_triangles ::
  "real list list \<Rightarrow> (nat \<times> nat \<times> nat) list \<Rightarrow> nat \<times> real \<Rightarrow> (nat \<times> nat \<times> nat) list" where
  "face_triangles vs ts f = filter (\<lambda>t. on_face vs f t \<and> \<not> degenerate t) ts"

text \<open>The triangles that have both \<open>p\<close> and \<open>q\<close> among their corners.\<close>

definition triangles_on_edge ::
  "(nat \<times> nat \<times> nat) list \<Rightarrow> nat \<Rightarrow> nat \<Rightarrow> (nat \<times> nat \<times> nat) list" where
  "triangles_on_edge ts p q =
     filter (\<lambda>t. case t of (i, j, k) \<Rightarrow> (p = i \<or> p = j \<or> p = k) \<and> (q = i \<or> q = j \<or> q = k)) ts"

text \<open>The triangles that have a corner on the bottom (vertices 0-3) and one on the top (4-7).\<close>

definition bottom_to_top_triangles :: "(nat \<times> nat \<times> nat) list \<Rightarrow> (nat \<times> nat \<times> nat) list" where
  "bottom_to_top_triangles ts =
     filter (\<lambda>t. case t of (i, j, k) \<Rightarrow> min i (min j k) < 4 \<and> 4 \<le> max i (max j k)) ts"

section \<open>Properties\<close>

subsection \<open>Auxiliary facts about the radius formula\<close>

lemma diag_nonneg: "0 \<le> diag x z"
  by (simp add: diag_def)


lemma diag_ge_width: "w \<le> diag w h"
  by (simp add: diag_def)




subsection \<open>Auxiliary facts about linspace\<close>

lemma length_linspace: "length (linspace s e n) = n"
  by (simp add: linspace_def Let_def)

lemma linspace_nth:
  assumes "1 < n" "i < n"
  shows "linspace s e n ! i = s + real i * ((e - s) / real (n - 1))"
proof (cases "i = n - 1")
  case True
  from assms have "real (n - 1) \<noteq> 0" by simp
  then have "s + real (n - 1) * ((e - s) / real (n - 1)) = e" by simp
  with assms True show ?thesis by (simp add: linspace_def Let_def)
next
  case False
  with assms show ?thesis by (simp add: linspace_def Let_def)
qed

lemma linspace_eq_map:
  assumes "1 < n"
  shows "linspace s e n = map (\<lambda>i. s + real i * ((e - s) / real (n - 1))) [0..<n]"
proof (rule nth_equalityI)
  show "length (linspace s e n) = length (map (\<lambda>i. s + real i * ((e - s) / real (n - 1))) [0..<n])"
    by (simp add: length_linspace)
next
  fix i assume "i < length (linspace s e n)"
  then have "i < n" by (simp add: length_linspace)
  with assms show "linspace s e n ! i = map (\<lambda>i. s + real i * ((e - s) / real (n - 1))) [0..<n] ! i"
    by (simp add: linspace_nth)
qed

lemma linspace_first: "1 < n \<Longrightarrow> hd (linspace s e n) = s"
  by (simp add: hd_conv_nth length_linspace linspace_nth flip: length_0_conv)

lemma linspace_last: "1 < n \<Longrightarrow> last (linspace s e n) = e"
  by (simp add: linspace_def Let_def last_list_update)


lemma linspace_bounds:
  assumes "1 < n" "s \<le> e" "i < n"
  shows "s \<le> linspace s e n ! i \<and> linspace s e n ! i \<le> e"
proof -
  let ?d = "(e - s) / real (n - 1)"
  from assms have d: "0 \<le> ?d" by simp
  from assms have "real i \<le> real (n - 1)" by simp
  then have "real i * ?d \<le> real (n - 1) * ?d" using d by (rule mult_right_mono)
  also from assms have "real (n - 1) * ?d = e - s" by simp
  finally have up: "real i * ?d \<le> e - s" .
  from d have "0 \<le> real i * ?d" by (intro mult_nonneg_nonneg) simp_all
  with up show ?thesis by (simp add: linspace_nth [OF assms(1,3)])
qed

subsection \<open>Auxiliary facts about the shell grids\<close>

lemma length_theta: "length theta = 100"
  by (simp add: theta_def length_linspace)

lemma length_Z_shell: "length (Z_shell sh) = 30"
  by (simp add: Z_shell_def length_linspace)

lemma Theta_shape: "length (Theta sh) = 30 \<and> (i < 30 \<longrightarrow> Theta sh ! i = theta)"
  by (simp add: Theta_def meshgrid_def length_Z_shell)

lemma Zgrid_shell_shape:
  "length (Zgrid_shell sh) = 30 \<and> (i < 30 \<longrightarrow> Zgrid_shell sh ! i = replicate 100 (Z_shell sh ! i))"
  by (simp add: Zgrid_shell_def meshgrid_def length_Z_shell length_theta map_replicate_const)

lemma theta_range: "j < 100 \<Longrightarrow> - pi / 2 \<le> theta ! j \<and> theta ! j \<le> pi / 2"
  unfolding theta_def by (rule linspace_bounds) simp_all

lemma theta_uniform: "theta = map (\<lambda>j. - pi / 2 + real j * (pi / 99)) [0..<100]"
  unfolding theta_def by (subst linspace_eq_map) simp_all

lemma Z_shell_uniform: "Z_shell sh = map (\<lambda>i. real i * (sh / 29)) [0..<30]"
  unfolding Z_shell_def by (subst linspace_eq_map) simp_all

lemma Z_shell_range: "0 \<le> sh \<Longrightarrow> i < 30 \<Longrightarrow> 0 \<le> Z_shell sh ! i \<and> Z_shell sh ! i \<le> sh"
  unfolding Z_shell_def by (rule linspace_bounds) simp_all

lemma Theta_nth: "i < 30 \<Longrightarrow> Theta sh ! i = theta"
  using Theta_shape [of sh i] by simp

lemma Zgrid_shell_nth: "i < 30 \<Longrightarrow> j < 100 \<Longrightarrow> Zgrid_shell sh ! i ! j = Z_shell sh ! i"
  using Zgrid_shell_shape [of sh i] by simp

lemma shell_grid_shapes:
  assumes "i < 30"
  shows "list_all (\<lambda>g. length g = 30 \<and> length (g ! i) = 100)
           [X_inner r sh, Y_inner r sh, Z_inner sh, X_outer r t sh, Y_outer r t sh, Z_outer sh]"
  using assms Theta_shape [of sh i] Zgrid_shell_shape [of sh i]
  by (simp add: X_inner_def Y_inner_def Z_inner_def X_outer_def Y_outer_def Z_outer_def length_theta)

lemma shell_inner_points:
  assumes "i < 30" "j < 100"
  shows "X_inner r sh ! i ! j = r * cos (theta ! j)"
    and "Y_inner r sh ! i ! j = r * sin (theta ! j)"
    and "Z_inner sh ! i ! j = Z_shell sh ! i"
  using assms Theta_shape [of sh i]
  by (simp_all add: X_inner_def Y_inner_def Z_inner_def length_theta Zgrid_shell_nth)

lemma shell_outer_points:
  assumes "i < 30" "j < 100"
  shows "X_outer r t sh ! i ! j = (r + t) * cos (theta ! j)"
    and "Y_outer r t sh ! i ! j = (r + t) * sin (theta ! j)"
    and "Z_outer sh ! i ! j = Z_shell sh ! i"
  using assms Theta_shape [of sh i]
  by (simp_all add: X_outer_def Y_outer_def Z_outer_def length_theta Zgrid_shell_nth)

lemma circle_point: "(c * cos u)\<^sup>2 + (c * sin u)\<^sup>2 = (c::real)\<^sup>2"
proof -
  have "(c * cos u)\<^sup>2 + (c * sin u)\<^sup>2 = c\<^sup>2 * ((cos u)\<^sup>2 + (sin u)\<^sup>2)"
    by (simp only: power_mult_distrib distrib_left)
  also have "\<dots> = c\<^sup>2" by simp
  finally show ?thesis .
qed

lemma cos_theta_nonneg: "u \<in> set theta \<Longrightarrow> 0 \<le> cos u"
proof -
  assume "u \<in> set theta"
  then obtain j where "j < 100" "u = theta ! j"
    by (auto simp: in_set_conv_nth length_theta)
  with theta_range [of j] show ?thesis by (simp add: cos_ge_zero)
qed

lemma set_Theta: "row \<in> set (Theta sh) \<Longrightarrow> row = theta"
  by (auto simp: Theta_def meshgrid_def)

lemma a_inner_nonneg: "0 \<le> clearance \<Longrightarrow> 0 \<le> a_inner x z clearance"
  using diag_nonneg [of x z] by (simp add: a_inner_def)

lemma scaled_cos_grid_nonneg:
  assumes "0 \<le> c" "row \<in> set (map (map (\<lambda>u. c * cos u)) (Theta sh))" "v \<in> set row"
  shows "0 \<le> v"
proof -
  from assms(2) obtain row' where "row' \<in> set (Theta sh)" "row = map (\<lambda>u. c * cos u) row'"
    by auto
  then have "row = map (\<lambda>u. c * cos u) theta" using set_Theta [of row' sh] by simp
  with assms(3) obtain u where "u \<in> set theta" "v = c * cos u" by auto
  with assms(1) show ?thesis by (simp add: cos_theta_nonneg)
qed

subsection \<open>Auxiliary facts about the beam mesh\<close>

lemma beam_triangles_eq:
  "beam_triangles = [(0,1,3),(0,3,2),(1,2,3),(1,0,1),(2,3,1),(2,1,0),(3,0,2),(3,2,0),
                     (4,5,7),(4,7,6),(5,6,7),(5,4,5)]"
  by (simp add: beam_triangles_def beam_i_def beam_j_def beam_k_def)

subsection \<open>Unit conversion\<close>


text \<open>
  C9. Any unit string other than \<open>''in''\<close> makes both conversions the identity: an
  unknown unit name takes the else branch, and neither function has an error path.
\<close>

theorem unknown_unit_is_identity:
  "u \<noteq> ''in'' \<Longrightarrow> to_si v u = v \<and> from_si v u = v"
  by (simp add: to_si_def from_si_def)

theorem unknown_unit_is_identity_witness:
  "''cm'' \<noteq> ''in'' \<and> to_si 7 ''cm'' = 7 \<and> from_si 7 ''cm'' = 7"
  using unknown_unit_is_identity [of "''cm''" 7] by simp

subsection \<open>Required inner radius\<close>







subsection \<open>Radius against beam width\<close>


subsection \<open>Shell surfaces\<close>

text \<open>
  C8. Both half-cylinder surfaces are sampled on one grid of 100 angles by 30 elevations.
  The angles are uniformly spaced from \<open>- pi / 2\<close> to \<open>pi / 2\<close> and the elevations
  uniformly from 0 to the shell height, both ends included. Each of the six coordinate
  arrays has 30 rows of 100 entries. At row \<open>i\<close> and column \<open>j\<close> the inner surface is the
  point at angle \<open>theta ! j\<close> on the circle of radius \<open>r\<close> (the required inner radius) at
  elevation \<open>Z_shell sh ! i\<close>, and the outer surface is the point at the same angle and
  elevation on the circle of radius \<open>r + t\<close>, \<open>t\<close> being the shell thickness.
\<close>

theorem shell_surfaces_grid:
  assumes "i < 30" "j < 100" "0 \<le> sh"
  shows "length theta = 100 \<and> length (Z_shell sh) = 30 \<and>
         theta ! j = - pi / 2 + real j * (pi / 99) \<and>
         Z_shell sh ! i = real i * (sh / 29) \<and>
         - pi / 2 \<le> theta ! j \<and> theta ! j \<le> pi / 2 \<and>
         0 \<le> Z_shell sh ! i \<and> Z_shell sh ! i \<le> sh \<and>
         hd theta = - pi / 2 \<and> last theta = pi / 2 \<and>
         hd (Z_shell sh) = 0 \<and> last (Z_shell sh) = sh \<and>
         list_all (\<lambda>g. length g = 30 \<and> length (g ! i) = 100)
           [X_inner r sh, Y_inner r sh, Z_inner sh, X_outer r t sh, Y_outer r t sh, Z_outer sh] \<and>
         X_inner r sh ! i ! j = r * cos (theta ! j) \<and>
         Y_inner r sh ! i ! j = r * sin (theta ! j) \<and>
         Z_inner sh ! i ! j = Z_shell sh ! i \<and>
         X_outer r t sh ! i ! j = (r + t) * cos (theta ! j) \<and>
         Y_outer r t sh ! i ! j = (r + t) * sin (theta ! j) \<and>
         Z_outer sh ! i ! j = Z_shell sh ! i \<and>
         (X_inner r sh ! i ! j)\<^sup>2 + (Y_inner r sh ! i ! j)\<^sup>2 = r\<^sup>2 \<and>
         (X_outer r t sh ! i ! j)\<^sup>2 + (Y_outer r t sh ! i ! j)\<^sup>2 = (r + t)\<^sup>2"
proof -
  have lens: "length theta = 100 \<and> length (Z_shell sh) = 30"
    by (simp add: length_theta length_Z_shell)
  have unif: "theta ! j = - pi / 2 + real j * (pi / 99) \<and> Z_shell sh ! i = real i * (sh / 29)"
    using assms by (simp add: theta_uniform Z_shell_uniform)
  have ends: "hd theta = - pi / 2 \<and> last theta = pi / 2 \<and> hd (Z_shell sh) = 0 \<and> last (Z_shell sh) = sh"
    by (simp add: theta_def Z_shell_def linspace_first linspace_last)
  have circ: "(X_inner r sh ! i ! j)\<^sup>2 + (Y_inner r sh ! i ! j)\<^sup>2 = r\<^sup>2 \<and>
              (X_outer r t sh ! i ! j)\<^sup>2 + (Y_outer r t sh ! i ! j)\<^sup>2 = (r + t)\<^sup>2"
    using assms by (simp add: shell_inner_points shell_outer_points circle_point)
  from lens unif ends circ theta_range [OF assms(2)] Z_shell_range [OF assms(3,1)]
    shell_grid_shapes [OF assms(1), of r sh t]
    shell_inner_points [OF assms(1,2)] shell_outer_points [OF assms(1,2)]
  show ?thesis by blast
qed

theorem shell_surfaces_grid_witness:
  "(0::nat) < 30 \<and> (0::nat) < 100 \<and> (0::real) \<le> 1 \<and>
   X_inner 2 1 ! 0 ! 0 = 2 * cos (theta ! 0) \<and> theta ! 0 = - pi / 2 \<and>
   X_outer 2 3 1 ! 0 ! 0 = (2 + 3) * cos (theta ! 0) \<and>
   length (X_inner 2 1) = 30 \<and> length (Y_outer 2 3 1 ! 0) = 100"
  using shell_surfaces_grid [of 0 0 1 2 3] by simp

text \<open>
  C10. For a non-negative beam width, clearance and shell thickness, so in particular for
  the positive inputs the widgets deliver, every \<open>x\<close> coordinate of the inner and of the
  outer shell surface is non-negative, the flat back lies in the plane \<open>x = 0\<close>, and every
  beam vertex has its \<open>x\<close> coordinate between 0 and the beam width.
\<close>

theorem geometry_in_front_half_space:
  assumes "0 \<le> x" "0 \<le> clearance" "0 \<le> shell_thickness"
  shows "(\<forall>row \<in> set (X_inner (a_inner x z clearance) shell_height). \<forall>v \<in> set row. 0 \<le> v) \<and>
         (\<forall>row \<in> set (X_outer (a_inner x z clearance) shell_thickness shell_height).
            \<forall>v \<in> set row. 0 \<le> v) \<and>
         (\<forall>row \<in> set (X_flat (a_inner x z clearance) shell_thickness shell_height).
            \<forall>v \<in> set row. v = 0) \<and>
         (\<forall>p \<in> set (beam_vertices x y z). 0 \<le> p ! 0 \<and> p ! 0 \<le> x)"
proof -
  from assms have r: "0 \<le> a_inner x z clearance" by (simp add: a_inner_nonneg)
  with assms have ro: "0 \<le> a_inner x z clearance + shell_thickness" by simp
  have inner: "\<forall>row \<in> set (X_inner (a_inner x z clearance) shell_height). \<forall>v \<in> set row. 0 \<le> v"
    unfolding X_inner_def using scaled_cos_grid_nonneg [OF r] by blast
  have outer: "\<forall>row \<in> set (X_outer (a_inner x z clearance) shell_thickness shell_height).
            \<forall>v \<in> set row. 0 \<le> v"
    unfolding X_outer_def using scaled_cos_grid_nonneg [OF ro] by blast
  have flat: "\<forall>row \<in> set (X_flat (a_inner x z clearance) shell_thickness shell_height).
            \<forall>v \<in> set row. v = 0"
    by (auto simp: X_flat_def zeros_like_def)
  have beam: "\<forall>p \<in> set (beam_vertices x y z). 0 \<le> p ! 0 \<and> p ! 0 \<le> x"
    using assms(1) by (simp add: beam_vertices_def)
  from inner outer flat beam show ?thesis by blast
qed

theorem geometry_in_front_half_space_witness:
  "(0::real) \<le> 3 \<and> (0::real) \<le> 1 \<and> (0::real) \<le> 2 \<and>
   X_inner (a_inner 3 8 1) 5 ! 0 \<in> set (X_inner (a_inner 3 8 1) 5) \<and>
   X_inner (a_inner 3 8 1) 5 ! 0 ! 0 \<in> set (X_inner (a_inner 3 8 1) 5 ! 0) \<and>
   0 \<le> X_inner (a_inner 3 8 1) 5 ! 0 ! 0 \<and>
   X_outer (a_inner 3 8 1) 2 5 ! 0 \<in> set (X_outer (a_inner 3 8 1) 2 5) \<and>
   X_outer (a_inner 3 8 1) 2 5 ! 0 ! 0 \<in> set (X_outer (a_inner 3 8 1) 2 5 ! 0) \<and>
   0 \<le> X_outer (a_inner 3 8 1) 2 5 ! 0 ! 0 \<and>
   [3, 4 / 2, 8] \<in> set (beam_vertices 3 4 8) \<and> 0 \<le> [3, 4 / 2, 8 :: real] ! 0 \<and> [3, 4 / 2, 8 :: real] ! 0 \<le> 3"
proof -
  have li: "length (X_inner (a_inner 3 8 1) 5) = 30 \<and> length (X_inner (a_inner 3 8 1) 5 ! 0) = 100"
    using Theta_shape [of 5 0] by (simp add: X_inner_def length_theta)
  have lo: "length (X_outer (a_inner 3 8 1) 2 5) = 30 \<and> length (X_outer (a_inner 3 8 1) 2 5 ! 0) = 100"
    using Theta_shape [of 5 0] by (simp add: X_outer_def length_theta)
  have mi: "X_inner (a_inner 3 8 1) 5 ! 0 \<in> set (X_inner (a_inner 3 8 1) 5) \<and>
            X_inner (a_inner 3 8 1) 5 ! 0 ! 0 \<in> set (X_inner (a_inner 3 8 1) 5 ! 0)"
    using li by (simp add: nth_mem)
  have mo: "X_outer (a_inner 3 8 1) 2 5 ! 0 \<in> set (X_outer (a_inner 3 8 1) 2 5) \<and>
            X_outer (a_inner 3 8 1) 2 5 ! 0 ! 0 \<in> set (X_outer (a_inner 3 8 1) 2 5 ! 0)"
    using lo by (simp add: nth_mem)
  have mb: "[3, 4 / 2, 8] \<in> set (beam_vertices 3 4 8)"
    by (simp add: beam_vertices_def)
  from mi mo mb geometry_in_front_half_space [of 3 1 2 8 5 4] show ?thesis
    by auto
qed

subsection \<open>Beam box against the shell\<close>

text \<open>
  C1 fails on the script. The required radius is computed from the beam width and the
  beam height \<open>z\<close>, but the shell is drawn around the vertical axis and the beam box extends
  to \<open>y / 2\<close> on either side of it, \<open>y\<close> being the beam length. For a beam 0.15 m wide,
  1 m long and 0.30 m high with 0.05 m clearance, vertex 2 of the box is \<open>[0.15, 0.5, 0]\<close>;
  its distance from the axis exceeds the whole inner radius, so the inequality
  \<open>sqrt (width\<^sup>2 + (length / 2)\<^sup>2) + clearance \<le> inner_radius\<close> is false there.
\<close>

theorem radius_misses_long_beam:
  "beam_vertices (15 / 100) 1 (30 / 100) ! 2 = [15 / 100, 1 / 2, 0] \<and>
   a_inner (15 / 100) (30 / 100) (5 / 100)
     < radial_distance (beam_vertices (15 / 100) 1 (30 / 100) ! 2) \<and>
   \<not> (sqrt ((15 / 100)\<^sup>2 + (1 / 2)\<^sup>2) + 5 / 100 \<le> a_inner (15 / 100) (30 / 100) (5 / 100))"
proof -
  have v: "beam_vertices (15 / 100) 1 (30 / 100) ! 2 = [15 / 100, 1 / 2, 0]"
    by (simp add: beam_vertices_def)
  have "sqrt ((15 / 100)\<^sup>2 + ((30 / 100) / 2)\<^sup>2) < (25 / 100 :: real)"
    by (rule real_less_lsqrt) (simp_all add: power2_eq_square)
  then have up: "a_inner (15 / 100) (30 / 100) (5 / 100) < 30 / 100"
    by (simp add: a_inner_def diag_def)
  have lo: "(1 / 2 :: real) \<le> sqrt ((15 / 100)\<^sup>2 + (1 / 2)\<^sup>2)"
    by (rule real_le_rsqrt) (simp add: power2_eq_square)
  have rd: "radial_distance (beam_vertices (15 / 100) 1 (30 / 100) ! 2)
      = sqrt ((15 / 100)\<^sup>2 + (1 / 2)\<^sup>2)"
    by (simp add: beam_vertices_def radial_distance_def)
  have far: "a_inner (15 / 100) (30 / 100) (5 / 100)
     < radial_distance (beam_vertices (15 / 100) 1 (30 / 100) ! 2)"
    unfolding rd using up lo by linarith
  from up lo have "\<not> (sqrt ((15 / 100)\<^sup>2 + (1 / 2)\<^sup>2) + 5 / 100 \<le> a_inner (15 / 100) (30 / 100) (5 / 100))"
    by linarith
  with v far show ?thesis by blast
qed

text \<open>
  C2 fails on the script. The box has 8 vertices and the index lists give 12 triangles,
  but evaluated at the default dimensions (0.15 m by 0.30 m by 0.30 m) the four side
  faces carry no triangle, the bottom face carries 7 proper triangles and the top face 3;
  the triangles \<open>(1, 0, 1)\<close> and \<open>(5, 4, 5)\<close> are degenerate; no triangle joins a bottom
  vertex to a top vertex, so the vertical edge from vertex 0 to vertex 4 bounds no
  triangle, while three triangles meet along the edge from vertex 0 to vertex 1. The
  surface is therefore not closed and does not have two triangles on every face.
\<close>

theorem beam_mesh_covers_two_faces_only:
  "length (beam_vertices (15 / 100) (30 / 100) (30 / 100)) = 8 \<and>
   length beam_triangles = 12 \<and>
   map (\<lambda>f. length (face_triangles (beam_vertices (15 / 100) (30 / 100) (30 / 100)) beam_triangles f))
     (box_faces (15 / 100) (30 / 100) (30 / 100)) = [0, 0, 0, 0, 7, 3] \<and>
   filter degenerate beam_triangles = [(1, 0, 1), (5, 4, 5)] \<and>
   bottom_to_top_triangles beam_triangles = [] \<and>
   triangles_on_edge beam_triangles 0 4 = [] \<and>
   length (triangles_on_edge beam_triangles 0 1) = 3"
  by (simp add: beam_triangles_eq beam_vertices_def box_faces_def face_triangles_def on_face_def
      degenerate_def bottom_to_top_triangles_def triangles_on_edge_def)

end
